theory Spec2Isabelle
  imports Main
begin

section \<open>The request handler of serve.py\<close>

text \<open>
  \<^verbatim>\<open>MyHTTPRequestHandler\<close> subclasses the standard library's
  \<^verbatim>\<open>SimpleHTTPRequestHandler\<close>. One handler object serves one request. Until the library
  has parsed the request line the object has no \<^verbatim>\<open>command\<close> and no \<^verbatim>\<open>path\<close> attribute;
  it has the attributes of a \<open>connection\<close>:

  \<^item> \<open>directory\<close>: the serving root given to the constructor;
  \<^item> \<open>version_string\<close>, \<open>date_time_string\<close>: the values of the library methods of these
    names, which \<^verbatim>\<open>send_response\<close> puts in the Server and Date headers;
  \<^item> \<open>status\<close>: the status line, once \<^verbatim>\<open>send_response\<close> has produced it; the library
    buffers it with the header lines;
  \<^item> \<open>headers_buffer\<close>: header lines sent with \<^verbatim>\<open>send_header\<close> and not yet flushed;
  \<^item> \<open>wfile_headers\<close>: the header lines written to the client;
  \<^item> \<open>wfile_body\<close>: the body bytes written to the client.

  The library's \<^verbatim>\<open>parse_request\<close> assigns the other two, and the object is a \<open>handler\<close>:

  \<^item> \<open>command\<close> and \<open>path\<close>: the method and the request target of the request line, as
    received (the target is not split: a query string stays in \<open>path\<close>).

  The protocol version is HTTP/1.x, the listener the specification names; for an HTTP/0.9
  request the library's \<^verbatim>\<open>send_header\<close> buffers nothing.
\<close>

type_synonym header = "string \<times> string"

record connection =
  directory :: string
  version_string :: string
  date_time_string :: string
  status :: "nat option"
  headers_buffer :: "header list"
  wfile_headers :: "header list"
  wfile_body :: string

record handler = connection +
  command :: string
  path :: string

text \<open>The exceptions that leave a handler. The server catches them, prints a traceback
  and closes the connection; what the handler had buffered is never written.\<close>

datatype handler_error = AttributeError | ValueError

subsection \<open>The inherited primitives the source calls\<close>

text \<open>\<^verbatim>\<open>send_header(keyword, value)\<close> appends one header line to the buffer.\<close>

definition send_header ::
    "string \<Rightarrow> string \<Rightarrow> 'a connection_scheme \<Rightarrow> 'a connection_scheme" where
  "send_header keyword val h = h\<lparr>headers_buffer := headers_buffer h @ [(keyword, val)]\<rparr>"

text \<open>\<^verbatim>\<open>send_response(code)\<close> produces the status line, then sends the Server and Date
  headers.\<close>

definition send_response :: "nat \<Rightarrow> 'a connection_scheme \<Rightarrow> 'a connection_scheme" where
  "send_response code h =
     send_header ''Date'' (date_time_string h)
       (send_header ''Server'' (version_string h) (h\<lparr>status := Some code\<rparr>))"

text \<open>\<^verbatim>\<open>super().end_headers()\<close>: the base class writes the buffered header lines out and
  empties the buffer.\<close>

definition super_end_headers :: "handler \<Rightarrow> handler" where
  "super_end_headers h =
     h\<lparr>wfile_headers := wfile_headers h @ headers_buffer h, headers_buffer := []\<rparr>"

text \<open>Python's \<^verbatim>\<open>str.endswith\<close>: an exact, case-sensitive comparison of the last
  characters.\<close>

definition endswith :: "string \<Rightarrow> string \<Rightarrow> bool" where
  "endswith s suf = (length suf \<le> length s \<and> drop (length s - length suf) s = suf)"

subsection \<open>The source: end_headers and do_OPTIONS\<close>

definition end_headers :: "handler \<Rightarrow> handler" where
  "end_headers h =
     (let h1 = send_header ''Access-Control-Allow-Origin'' ''*'' h;
          h2 = send_header ''Access-Control-Allow-Methods'' ''GET, POST, OPTIONS'' h1;
          h3 = send_header ''Access-Control-Allow-Headers'' ''Content-Type'' h2;
          h4 = (if endswith (path h3) ''.js'' \<or> endswith (path h3) ''.jsx''
                then send_header ''Content-Type'' ''application/javascript; charset=utf-8'' h3
                else if endswith (path h3) ''.json''
                then send_header ''Content-Type'' ''application/json; charset=utf-8'' h3
                else h3)
      in super_end_headers h4)"

definition do_OPTIONS :: "handler \<Rightarrow> handler" where
  "do_OPTIONS h = end_headers (send_response 200 h)"

text \<open>
  The same \<^verbatim>\<open>end_headers\<close> on an object that has no \<^verbatim>\<open>path\<close> attribute yet: the three
  \<^verbatim>\<open>send_header\<close> calls run, then reading \<^verbatim>\<open>self.path\<close> raises \<^verbatim>\<open>AttributeError\<close>. The
  call of \<^verbatim>\<open>super().end_headers()\<close> is not reached, so the buffer is not flushed. The
  result is the exception and the object as the exception leaves it.
\<close>

definition end_headers_unparsed :: "connection \<Rightarrow> handler_error \<times> connection" where
  "end_headers_unparsed c =
     (let c1 = send_header ''Access-Control-Allow-Origin'' ''*'' c;
          c2 = send_header ''Access-Control-Allow-Methods'' ''GET, POST, OPTIONS'' c1;
          c3 = send_header ''Access-Control-Allow-Headers'' ''Content-Type'' c2
      in (AttributeError, c3))"

subsection \<open>Names for what the theorems observe\<close>

definition cors_headers :: "header list" where
  "cors_headers =
     [(''Access-Control-Allow-Origin'', ''*''),
      (''Access-Control-Allow-Methods'', ''GET, POST, OPTIONS''),
      (''Access-Control-Allow-Headers'', ''Content-Type'')]"

text \<open>The Content-Type line that \<open>end_headers\<close> injects for a request target, if any.\<close>

definition injected_content_type :: "string \<Rightarrow> header list" where
  "injected_content_type p =
     (if endswith p ''.js'' \<or> endswith p ''.jsx''
      then [(''Content-Type'', ''application/javascript; charset=utf-8'')]
      else if endswith p ''.json''
      then [(''Content-Type'', ''application/json; charset=utf-8'')]
      else [])"

subsection \<open>The static-file handler underneath\<close>

text \<open>
  What is sent for a method other than OPTIONS is decided by the inherited
  \<^verbatim>\<open>SimpleHTTPRequestHandler\<close> from the filesystem: a file, a directory listing, a
  redirect or an error page. Every one of its paths has the same shape:
  \<^verbatim>\<open>send_response(code)\<close>, some \<^verbatim>\<open>send_header\<close> calls,
  \<^verbatim>\<open>self.end_headers()\<close> (which is the override above), then the body. A \<open>reply\<close>
  holds the three choices; the function that makes them is a parameter of the model.
\<close>

record reply =
  code :: nat
  extra_headers :: "header list"
  content :: string

definition send_reply :: "reply \<Rightarrow> handler \<Rightarrow> handler" where
  "send_reply r h =
     (let h1 = send_response (code r) h;
          h2 = fold (\<lambda>(k, v). send_header k v) (extra_headers r) h1;
          h3 = end_headers h2
      in h3\<lparr>wfile_body := wfile_body h3 @ content r\<rparr>)"

text \<open>The reply of the inherited \<^verbatim>\<open>send_head\<close> for an existing regular file: status
  200 and the headers Content-type (the guess from the file name), Content-Length and
  Last-Modified, then the file's bytes.\<close>

definition file_reply :: "string \<Rightarrow> string \<Rightarrow> string \<Rightarrow> string \<Rightarrow> reply" where
  "file_reply ctype len mtime bytes =
     \<lparr>code = 200,
      extra_headers =
        [(''Content-type'', ctype), (''Content-Length'', len), (''Last-Modified'', mtime)],
      content = bytes\<rparr>"

text \<open>The reply of the inherited \<^verbatim>\<open>send_error\<close> for a status that has a body: the headers
  Connection, Content-Type and Content-Length, then the error page.\<close>

definition error_reply :: "nat \<Rightarrow> string \<Rightarrow> string \<Rightarrow> reply" where
  "error_reply c len page =
     \<lparr>code = c,
      extra_headers =
        [(''Connection'', ''close''), (''Content-Type'', ''text/html;charset=utf-8''),
         (''Content-Length'', len)],
      content = page\<rparr>"

text \<open>
  \<^verbatim>\<open>send_error\<close> on an object without \<^verbatim>\<open>path\<close>: the same calls as in \<open>send_reply\<close>, with
  \<^verbatim>\<open>self.end_headers()\<close> raising; the body is not reached.
\<close>

definition send_error_unparsed :: "reply \<Rightarrow> connection \<Rightarrow> handler_error \<times> connection" where
  "send_error_unparsed r c =
     (let c1 = send_response (code r) c;
          c2 = fold (\<lambda>(k, v). send_header k v) (extra_headers r) c1
      in end_headers_unparsed c2)"

subsection \<open>One request\<close>

text \<open>
  What the library makes of the request line, before anything of the source runs:

  \<^item> \<open>Parsed\<close>: \<^verbatim>\<open>parse_request\<close> has assigned \<^verbatim>\<open>command\<close> and \<^verbatim>\<open>path\<close>;
  \<^item> \<open>Refused\<close>: the library refuses the line before it assigns them (a line longer than
    65536 bytes: 414; a line that is not two or three words, or a malformed version:
    400; a version from 2.0 on: 505) and calls \<^verbatim>\<open>send_error\<close> with the reply given here,
    at the time given here.
\<close>

record request =
  http_method :: string
  target :: string
  date :: string

datatype request_line = Parsed request | Refused string reply

definition new_connection :: "string \<Rightarrow> string \<Rightarrow> string \<Rightarrow> connection" where
  "new_connection ver dir d =
     \<lparr>directory = dir, version_string = ver, date_time_string = d,
      status = None, headers_buffer = [], wfile_headers = [], wfile_body = []\<rparr>"

definition new_handler :: "string \<Rightarrow> string \<Rightarrow> request \<Rightarrow> handler" where
  "new_handler ver dir req =
     \<lparr>directory = dir, version_string = ver, date_time_string = date req,
      status = None, headers_buffer = [], wfile_headers = [], wfile_body = [],
      command = http_method req, path = target req\<rparr>"

text \<open>How a handler ends: it has replied, and this is its final state; or an exception
  has left it, and this is the object as the exception leaves it.\<close>

datatype outcome = Replied handler | Raised handler_error connection

text \<open>
  \<^verbatim>\<open>handle_one_request\<close>. For a refused line the library sends its error reply, on an
  object without \<^verbatim>\<open>path\<close>. For a parsed line it looks up the method
  \<^verbatim>\<open>'do_' + command\<close>: the source defines \<^verbatim>\<open>do_OPTIONS\<close>, everything else is the library's
  (\<^verbatim>\<open>do_GET\<close>, \<^verbatim>\<open>do_HEAD\<close>, and \<^verbatim>\<open>send_error\<close> with 501 for the rest), which either
  replies or raises before it has sent anything (\<^verbatim>\<open>open\<close> raises \<^verbatim>\<open>ValueError\<close> for a
  path with a null byte, and \<^verbatim>\<open>send_head\<close> catches \<^verbatim>\<open>OSError\<close> only).
\<close>

definition handle_one_request ::
    "('fs \<Rightarrow> handler \<Rightarrow> handler_error + reply) \<Rightarrow> 'fs \<Rightarrow> string \<Rightarrow> string
      \<Rightarrow> request_line \<Rightarrow> outcome" where
  "handle_one_request static fs ver dir line =
     (case line of
        Refused d r \<Rightarrow>
          (case send_error_unparsed r (new_connection ver dir d) of (e, c) \<Rightarrow> Raised e c)
      | Parsed req \<Rightarrow>
          (let h = new_handler ver dir req in
           if command h = ''OPTIONS'' then Replied (do_OPTIONS h)
           else case static fs h of
                  Inl e \<Rightarrow> Raised e (new_connection ver dir (date req))
                | Inr r \<Rightarrow> Replied (send_reply r h)))"

text \<open>Constructing a handler object handles the request.\<close>

definition MyHTTPRequestHandler ::
    "('fs \<Rightarrow> handler \<Rightarrow> handler_error + reply) \<Rightarrow> 'fs \<Rightarrow> string \<Rightarrow> string
      \<Rightarrow> request_line \<Rightarrow> outcome" where
  "MyHTTPRequestHandler static fs ver dir line = handle_one_request static fs ver dir line"

text \<open>What the client receives, and the serving root of the handler. After an exception
  the client has what was flushed before it; the status line is buffered with the
  headers, so it is not among that.\<close>

fun response_status :: "outcome \<Rightarrow> nat option" where
  "response_status (Replied h) = status h"
| "response_status (Raised e c) = None"

fun response_headers :: "outcome \<Rightarrow> header list" where
  "response_headers (Replied h) = wfile_headers h"
| "response_headers (Raised e c) = wfile_headers c"

fun response_body :: "outcome \<Rightarrow> string" where
  "response_body (Replied h) = wfile_body h"
| "response_body (Raised e c) = wfile_body c"

fun serving_root :: "outcome \<Rightarrow> string" where
  "serving_root (Replied h) = directory h"
| "serving_root (Raised e c) = directory c"

subsection \<open>Reading a header of a response\<close>

text \<open>Header names are compared without regard to case: the library writes
  \<^verbatim>\<open>Content-type\<close>, the source \<^verbatim>\<open>Content-Type\<close>.\<close>

definition lower_char :: "char \<Rightarrow> char" where
  "lower_char c =
     (case map_of (zip ''ABCDEFGHIJKLMNOPQRSTUVWXYZ'' ''abcdefghijklmnopqrstuvwxyz'') c of
        Some l \<Rightarrow> l
      | None \<Rightarrow> c)"

definition header_values :: "string \<Rightarrow> header list \<Rightarrow> string list" where
  "header_values name hs =
     map snd (filter (\<lambda>kv. map lower_char (fst kv) = map lower_char name) hs)"

section \<open>The main program\<close>

text \<open>
  The main program is modelled by the trace of what it does to the outside: socket
  operations, console output, responses and the exit of the process. The banner and the
  shutdown message contain characters outside ASCII; the trace names them instead of
  spelling them. A traceback is what the interpreter prints for an exception nobody
  caught, and it then exits with status 1.
\<close>

datatype exn = OSError | KeyboardInterrupt

datatype console = Banner nat | ServerStopped | Traceback exn

datatype action =
    Bind nat
  | Listen
  | Close
  | Print console
  | Respond outcome
  | Exit nat

datatype event = Request request_line | Interrupt

record environment =
  argv :: "string list"
  getcwd :: string
  port_in_use :: "nat \<Rightarrow> bool"

definition PORT :: nat where
  "PORT = 8000"

text \<open>\<^verbatim>\<open>socketserver.TCPServer((host, port), Handler)\<close>: the constructor binds and listens;
  when that fails it closes the socket and raises again. The server object keeps its
  address and the handler class.\<close>

record tcp_server =
  server_address :: "string \<times> nat"
  RequestHandlerClass :: "request_line \<Rightarrow> outcome"

definition TCPServer ::
    "environment \<Rightarrow> string \<times> nat \<Rightarrow> (request_line \<Rightarrow> outcome)
      \<Rightarrow> action list \<times> (exn + tcp_server)" where
  "TCPServer env addr Handler =
     (if port_in_use env (snd addr)
      then ([Bind (snd addr), Close], Inl OSError)
      else ([Bind (snd addr), Listen],
            Inr \<lparr>server_address = addr, RequestHandlerClass = Handler\<rparr>))"

text \<open>\<^verbatim>\<open>serve_forever\<close> over the events that arrive: each request is handled by the handler
  class, and the server catches an exception that leaves a handler and goes on; an
  interrupt raises \<^verbatim>\<open>KeyboardInterrupt\<close>. When the events run out the loop has not returned
  (\<open>None\<close>).\<close>

fun serve_forever :: "tcp_server \<Rightarrow> event list \<Rightarrow> action list \<times> exn option" where
  "serve_forever httpd [] = ([], None)"
| "serve_forever httpd (Interrupt # evs) = ([], Some KeyboardInterrupt)"
| "serve_forever httpd (Request r # evs) =
     (case serve_forever httpd evs of
        (tr, x) \<Rightarrow> (Respond (RequestHandlerClass httpd r) # tr, x))"

definition main ::
    "('fs \<Rightarrow> handler \<Rightarrow> handler_error + reply) \<Rightarrow> 'fs \<Rightarrow> string \<Rightarrow> environment
      \<Rightarrow> event list \<Rightarrow> action list" where
  "main static fs ver env evs =
     (let Handler = MyHTTPRequestHandler static fs ver (getcwd env) in
      case TCPServer env ([], PORT) Handler of
        (tr0, Inl e) \<Rightarrow> tr0 @ [Print (Traceback e), Exit 1]
      | (tr0, Inr httpd) \<Rightarrow>
          (case serve_forever httpd evs of
             (tr1, None) \<Rightarrow> tr0 @ [Print (Banner PORT)] @ tr1
           | (tr1, Some KeyboardInterrupt) \<Rightarrow>
               tr0 @ [Print (Banner PORT)] @ tr1 @ [Print ServerStopped, Close, Exit 0]
           | (tr1, Some OSError) \<Rightarrow>
               tr0 @ [Print (Banner PORT)] @ tr1 @ [Close, Print (Traceback OSError), Exit 1]))"

subsection \<open>Reading a trace\<close>

text \<open>Whether a listening socket is open after a trace that started with \<open>b\<close>.\<close>

fun listening :: "action list \<Rightarrow> bool \<Rightarrow> bool" where
  "listening [] b = b"
| "listening (Listen # tr) b = listening tr True"
| "listening (Close # tr) b = listening tr False"
| "listening (a # tr) b = listening tr b"

fun exit_status :: "action list \<Rightarrow> nat option" where
  "exit_status [] = None"
| "exit_status (Exit n # tr) = Some n"
| "exit_status (a # tr) = exit_status tr"

fun bind_calls :: "action list \<Rightarrow> nat list" where
  "bind_calls [] = []"
| "bind_calls (Bind p # tr) = p # bind_calls tr"
| "bind_calls (a # tr) = bind_calls tr"

fun printed :: "action list \<Rightarrow> console list" where
  "printed [] = []"
| "printed (Print c # tr) = c # printed tr"
| "printed (a # tr) = printed tr"

fun served_roots :: "action list \<Rightarrow> string list" where
  "served_roots [] = []"
| "served_roots (Respond x # tr) = serving_root x # served_roots tr"
| "served_roots (a # tr) = served_roots tr"

text \<open>The requests that arrive before the first interrupt.\<close>

fun requests_before_interrupt :: "event list \<Rightarrow> request_line list" where
  "requests_before_interrupt [] = []"
| "requests_before_interrupt (Interrupt # evs) = []"
| "requests_before_interrupt (Request r # evs) = r # requests_before_interrupt evs"

section \<open>Basic facts\<close>

lemma endswith_append: "endswith s suf \<longleftrightarrow> (\<exists>pre. s = pre @ suf)"
proof
  assume "endswith s suf"
  then have "s = take (length s - length suf) s @ suf"
    by (metis append_take_drop_id endswith_def)
  then show "\<exists>pre. s = pre @ suf" ..
next
  assume "\<exists>pre. s = pre @ suf"
  then show "endswith s suf" by (auto simp: endswith_def)
qed

lemma end_headers_unfold:
  "end_headers h =
     h\<lparr>wfile_headers :=
         wfile_headers h @ headers_buffer h @ cors_headers @ injected_content_type (path h),
       headers_buffer := []\<rparr>"
  by (simp add: end_headers_def send_header_def super_end_headers_def cors_headers_def
      injected_content_type_def Let_def)

lemma fold_send_header:
  "fold (\<lambda>(k, v). send_header k v) hs h = h\<lparr>headers_buffer := headers_buffer h @ hs\<rparr>"
  by (induction hs arbitrary: h) (simp_all add: send_header_def split_def)

lemma send_response_unfold:
  "send_response c h =
     h\<lparr>status := Some c,
       headers_buffer :=
         headers_buffer h @ [(''Server'', version_string h), (''Date'', date_time_string h)]\<rparr>"
  by (simp add: send_response_def send_header_def)

lemma do_OPTIONS_unfold:
  "do_OPTIONS h =
     h\<lparr>status := Some 200,
       wfile_headers :=
         wfile_headers h @ headers_buffer h
           @ [(''Server'', version_string h), (''Date'', date_time_string h)]
           @ cors_headers @ injected_content_type (path h),
       headers_buffer := []\<rparr>"
  by (simp add: do_OPTIONS_def end_headers_unfold send_response_unfold)

lemma send_reply_unfold:
  "send_reply r h =
     h\<lparr>status := Some (code r),
       wfile_headers :=
         wfile_headers h @ headers_buffer h
           @ [(''Server'', version_string h), (''Date'', date_time_string h)]
           @ extra_headers r @ cors_headers @ injected_content_type (path h),
       headers_buffer := [],
       wfile_body := wfile_body h @ content r\<rparr>"
  by (simp add: send_reply_def Let_def end_headers_unfold send_response_unfold fold_send_header)

lemma send_error_unparsed_unfold:
  "send_error_unparsed r c =
     (AttributeError,
      c\<lparr>status := Some (code r),
        headers_buffer :=
          headers_buffer c @ [(''Server'', version_string c), (''Date'', date_time_string c)]
            @ extra_headers r @ cors_headers\<rparr>)"
  by (simp add: send_error_unparsed_def end_headers_unparsed_def Let_def send_response_unfold
      fold_send_header send_header_def cors_headers_def)

lemma serving_root_MyHTTPRequestHandler:
  "serving_root (MyHTTPRequestHandler static fs ver dir line) = dir"
  by (cases line)
    (simp_all add: MyHTTPRequestHandler_def handle_one_request_def Let_def do_OPTIONS_unfold
      send_reply_unfold send_error_unparsed_unfold new_handler_def new_connection_def
      split: sum.splits)

lemma cors_headers_when_flushed:
  "set cors_headers \<subseteq> set (wfile_headers (end_headers h))"
  "set cors_headers \<subseteq> set (wfile_headers (do_OPTIONS h))"
  "set cors_headers \<subseteq> set (wfile_headers (send_reply r h))"
  by (auto simp: end_headers_unfold do_OPTIONS_unfold send_reply_unfold)

lemma lower_names:
  "map lower_char ''Content-Type'' = ''content-type''"
  "map lower_char ''Content-type'' = ''content-type''"
  "map lower_char ''Content-Length'' = ''content-length''"
  "map lower_char ''Last-Modified'' = ''last-modified''"
  "map lower_char ''Server'' = ''server''"
  "map lower_char ''Date'' = ''date''"
  "map lower_char ''Access-Control-Allow-Origin'' = ''access-control-allow-origin''"
  "map lower_char ''Access-Control-Allow-Methods'' = ''access-control-allow-methods''"
  "map lower_char ''Access-Control-Allow-Headers'' = ''access-control-allow-headers''"
  by (simp_all add: lower_char_def)

lemma header_values_append:
  "header_values n (xs @ ys) = header_values n xs @ header_values n ys"
  by (simp add: header_values_def)

lemma header_values_cors: "header_values ''Content-Type'' cors_headers = []"
  by (simp add: header_values_def cors_headers_def lower_names)

lemma header_values_injected:
  "header_values ''Content-Type'' (injected_content_type p) = map snd (injected_content_type p)"
  by (simp add: header_values_def injected_content_type_def lower_names)

lemma endswith_last: "endswith s suf \<Longrightarrow> suf \<noteq> [] \<Longrightarrow> last s = last suf"
  by (auto simp: endswith_append)

lemma serve_forever_trace:
  "fst (serve_forever httpd evs) =
     map (\<lambda>r. Respond (RequestHandlerClass httpd r)) (requests_before_interrupt evs)"
  by (induction httpd evs rule: serve_forever.induct) (simp_all add: split_def)

lemma serve_forever_interrupted:
  "Interrupt \<in> set evs \<Longrightarrow> snd (serve_forever httpd evs) = Some KeyboardInterrupt"
  by (induction httpd evs rule: serve_forever.induct) (auto simp: split_def)

lemma serve_forever_running:
  "Interrupt \<notin> set evs \<Longrightarrow> snd (serve_forever httpd evs) = None"
  by (induction httpd evs rule: serve_forever.induct) (auto simp: split_def)

lemma listening_append: "listening (xs @ ys) b = listening ys (listening xs b)"
  by (induction xs b rule: listening.induct) simp_all

lemma listening_responses: "listening (map (\<lambda>r. Respond (H r)) rs) b = b"
  by (induction rs) simp_all

lemma exit_status_responses:
  "exit_status (map (\<lambda>r. Respond (H r)) rs @ tr) = exit_status tr"
  by (induction rs) simp_all

lemma bind_calls_append: "bind_calls (xs @ ys) = bind_calls xs @ bind_calls ys"
  by (induction xs rule: bind_calls.induct) simp_all

lemma bind_calls_responses: "bind_calls (map (\<lambda>r. Respond (H r)) rs) = []"
  by (induction rs) simp_all

lemma printed_append: "printed (xs @ ys) = printed xs @ printed ys"
  by (induction xs rule: printed.induct) simp_all

lemma printed_responses: "printed (map (\<lambda>r. Respond (H r)) rs) = []"
  by (induction rs) simp_all

lemma served_roots_append: "served_roots (xs @ ys) = served_roots xs @ served_roots ys"
  by (induction xs rule: served_roots.induct) simp_all

lemma served_roots_responses:
  "served_roots (map (\<lambda>r. Respond (H r)) rs) = map (\<lambda>r. serving_root (H r)) rs"
  by (induction rs) simp_all

lemma main_bind_failure:
  "port_in_use env PORT \<Longrightarrow>
   main static fs ver env evs = [Bind PORT, Close, Print (Traceback OSError), Exit 1]"
  by (simp add: main_def TCPServer_def)

lemma main_interrupted:
  assumes "\<not> port_in_use env PORT" and "Interrupt \<in> set evs"
  shows "main static fs ver env evs =
     [Bind PORT, Listen, Print (Banner PORT)]
       @ map (\<lambda>r. Respond (MyHTTPRequestHandler static fs ver (getcwd env) r))
           (requests_before_interrupt evs)
       @ [Print ServerStopped, Close, Exit 0]"
  using assms
  by (simp add: main_def TCPServer_def split_def serve_forever_trace serve_forever_interrupted)

lemma main_running:
  assumes "\<not> port_in_use env PORT" and "Interrupt \<notin> set evs"
  shows "main static fs ver env evs =
     [Bind PORT, Listen, Print (Banner PORT)]
       @ map (\<lambda>r. Respond (MyHTTPRequestHandler static fs ver (getcwd env) r))
           (requests_before_interrupt evs)"
  using assms
  by (simp add: main_def TCPServer_def split_def serve_forever_trace serve_forever_running)

lemma endswith_3: "endswith (pre @ [a, b, c]) [x, y, z] \<longleftrightarrow> a = x \<and> b = y \<and> c = z"
  by (simp add: endswith_def)

lemma not_matched_last:
  assumes "last p \<noteq> CHR ''s''" "last p \<noteq> CHR ''x''" "last p \<noteq> CHR ''n''"
  shows "injected_content_type p = []"
  using assms endswith_last [of p "''.js''"] endswith_last [of p "''.jsx''"]
    endswith_last [of p "''.json''"]
  by (auto simp: injected_content_type_def)

lemma not_matched_upper:
  assumes "endswith p ''.JS'' \<or> endswith p ''.Js'' \<or> endswith p ''.jS'' \<or> endswith p ''.JSX''"
  shows "injected_content_type p = []"
  using assms
proof (elim disjE)
  assume "endswith p ''.JS''"
  then have "last p = CHR ''S''" using endswith_last [of p "''.JS''"] by simp
  then show ?thesis by (simp add: not_matched_last)
next
  assume a: "endswith p ''.Js''"
  then obtain pre where p: "p = pre @ ''.Js''" by (auto simp: endswith_append)
  have "\<not> endswith p ''.js''" by (simp add: p endswith_3)
  moreover have "last p = CHR ''s''" by (simp add: p)
  then have "\<not> endswith p ''.jsx''" "\<not> endswith p ''.json''"
    using endswith_last [of p "''.jsx''"] endswith_last [of p "''.json''"] by auto
  ultimately show ?thesis by (simp add: injected_content_type_def)
next
  assume "endswith p ''.jS''"
  then have "last p = CHR ''S''" using endswith_last [of p "''.jS''"] by simp
  then show ?thesis by (simp add: not_matched_last)
next
  assume "endswith p ''.JSX''"
  then have "last p = CHR ''X''" using endswith_last [of p "''.JSX''"] by simp
  then show ?thesis by (simp add: not_matched_last)
qed

lemma json_not_js:
  assumes "endswith p ''.json''"
  shows "injected_content_type p = [(''Content-Type'', ''application/json; charset=utf-8'')]"
proof -
  have l: "last p = CHR ''n''" using assms endswith_last [of p "''.json''"] by simp
  have "\<not> endswith p ''.js''" "\<not> endswith p ''.jsx''"
    using l endswith_last [of p "''.js''"] endswith_last [of p "''.jsx''"] by auto
  then show ?thesis using assms by (simp add: injected_content_type_def)
qed

section \<open>Claims\<close>

text \<open>
  C1. Every response is to carry the three CORS headers with their exact values, whatever
  the method and the target, error replies included. The code does this for every reply
  that reaches the flush of \<open>end_headers\<close> (\<open>cors_headers_when_flushed\<close>). It does not for
  a request line the library refuses before it has assigned \<^verbatim>\<open>path\<close>, such as
  \<^verbatim>\<open>GET /a b.html HTTP/1.1\<close>, which is four words: the library's 400 reply calls
  \<open>end_headers\<close>, the three CORS lines are buffered, reading \<^verbatim>\<open>self.path\<close> raises
  \<^verbatim>\<open>AttributeError\<close>, and the client receives nothing, no status line and no header.
  The same holds when the library's \<^verbatim>\<open>do_GET\<close> raises before it replies, as for
  \<^verbatim>\<open>GET /%00\<close>.
\<close>

theorem refused_request_line_gets_no_cors_headers:
  "MyHTTPRequestHandler static fs ver dir (Refused d (error_reply 400 len page)) =
     Raised AttributeError
       \<lparr>directory = dir, version_string = ver, date_time_string = d, status = Some 400,
        headers_buffer =
          [(''Server'', ver), (''Date'', d), (''Connection'', ''close''),
           (''Content-Type'', ''text/html;charset=utf-8''), (''Content-Length'', len),
           (''Access-Control-Allow-Origin'', ''*''),
           (''Access-Control-Allow-Methods'', ''GET, POST, OPTIONS''),
           (''Access-Control-Allow-Headers'', ''Content-Type'')],
        wfile_headers = [], wfile_body = []\<rparr>
   \<and> response_status
        (MyHTTPRequestHandler static fs ver dir (Refused d (error_reply 400 len page))) = None
   \<and> response_headers
        (MyHTTPRequestHandler static fs ver dir (Refused d (error_reply 400 len page))) = []
   \<and> response_body
        (MyHTTPRequestHandler static fs ver dir (Refused d (error_reply 400 len page))) = []
   \<and> (''Access-Control-Allow-Origin'', ''*'')
      \<notin> set (response_headers
          (MyHTTPRequestHandler static fs ver dir (Refused d (error_reply 400 len page))))
   \<and> response_headers
        (MyHTTPRequestHandler (\<lambda>fs h. Inl ValueError) fs ver dir
           (Parsed \<lparr>http_method = ''GET'', target = ''/%00'', date = d\<rparr>)) = []"
  by (simp add: MyHTTPRequestHandler_def handle_one_request_def send_error_unparsed_unfold
      error_reply_def new_connection_def new_handler_def cors_headers_def)

text \<open>
  C2. A request with method OPTIONS, to any target, is answered with status 200, no body,
  and the Server and Date headers followed by the three CORS headers (and the injected
  Content-Type when the target has one of the three suffixes). The static-file handler and
  the filesystem are not consulted: the response is the same for any two of them.
\<close>

theorem options_reply:
  "MyHTTPRequestHandler static fs ver dir
       (Parsed \<lparr>http_method = ''OPTIONS'', target = p, date = d\<rparr>) =
     Replied
       \<lparr>directory = dir, version_string = ver, date_time_string = d,
        status = Some 200, headers_buffer = [],
        wfile_headers =
          [(''Server'', ver), (''Date'', d)] @ cors_headers @ injected_content_type p,
        wfile_body = [],
        command = ''OPTIONS'', path = p\<rparr>
   \<and> MyHTTPRequestHandler static fs ver dir
       (Parsed \<lparr>http_method = ''OPTIONS'', target = p, date = d\<rparr>) =
     MyHTTPRequestHandler static' fs' ver dir
       (Parsed \<lparr>http_method = ''OPTIONS'', target = p, date = d\<rparr>)"
  by (simp add: MyHTTPRequestHandler_def handle_one_request_def do_OPTIONS_unfold
      new_handler_def)

text \<open>
  C3, as the code has it. For a request target that ends in \<^verbatim>\<open>.js\<close> or \<^verbatim>\<open>.jsx\<close> (an exact,
  case-sensitive comparison), \<open>end_headers\<close> sends the line
  \<^verbatim>\<open>Content-Type: application/javascript; charset=utf-8\<close> after the three CORS headers. The
  line is added, not substituted: every Content-Type line sent before it stays in the
  response, in front of it, so the injected value is the last Content-Type of the
  response. Targets that end in \<^verbatim>\<open>.JS\<close>, \<^verbatim>\<open>.Js\<close>, \<^verbatim>\<open>.jS\<close> or \<^verbatim>\<open>.JSX\<close> are not matched.
\<close>

theorem js_content_type_appended:
  "(endswith (path h) ''.js'' \<or> endswith (path h) ''.jsx'' \<longrightarrow>
      wfile_headers (end_headers h) =
        wfile_headers h @ headers_buffer h @ cors_headers
          @ [(''Content-Type'', ''application/javascript; charset=utf-8'')]
      \<and> header_values ''Content-Type'' (wfile_headers (end_headers h)) =
        header_values ''Content-Type'' (wfile_headers h @ headers_buffer h)
          @ [''application/javascript; charset=utf-8''])
   \<and> (endswith (path h) ''.JS'' \<or> endswith (path h) ''.Js'' \<or> endswith (path h) ''.jS''
        \<or> endswith (path h) ''.JSX'' \<longrightarrow>
      wfile_headers (end_headers h) = wfile_headers h @ headers_buffer h @ cors_headers)"
proof (intro conjI impI)
  assume a: "endswith (path h) ''.js'' \<or> endswith (path h) ''.jsx''"
  then have inj: "injected_content_type (path h) =
      [(''Content-Type'', ''application/javascript; charset=utf-8'')]"
    by (simp add: injected_content_type_def)
  show "wfile_headers (end_headers h) =
        wfile_headers h @ headers_buffer h @ cors_headers
          @ [(''Content-Type'', ''application/javascript; charset=utf-8'')]"
    by (simp add: end_headers_unfold inj)
  show "header_values ''Content-Type'' (wfile_headers (end_headers h)) =
        header_values ''Content-Type'' (wfile_headers h @ headers_buffer h)
          @ [''application/javascript; charset=utf-8'']"
    using header_values_injected [of "path h"]
    by (simp add: end_headers_unfold inj header_values_append header_values_cors)
next
  assume "endswith (path h) ''.JS'' \<or> endswith (path h) ''.Js'' \<or> endswith (path h) ''.jS''
        \<or> endswith (path h) ''.JSX''"
  then have "injected_content_type (path h) = []" by (rule not_matched_upper)
  then show "wfile_headers (end_headers h) = wfile_headers h @ headers_buffer h @ cors_headers"
    by (simp add: end_headers_unfold)
qed

text \<open>The theorem at \<^verbatim>\<open>/src/main.jsx\<close> and at \<^verbatim>\<open>/src/MAIN.JS\<close>.\<close>

theorem js_content_type_appended_witness:
  "endswith ''/src/main.jsx'' ''.jsx''
   \<and> header_values ''Content-Type''
        (wfile_headers (end_headers
           \<lparr>directory = ''/srv'', version_string = ''SimpleHTTP/0.6'',
            date_time_string = ''now'', status = Some 200,
            headers_buffer = [(''Content-type'', ''application/octet-stream'')],
            wfile_headers = [], wfile_body = [],
            command = ''GET'', path = ''/src/main.jsx''\<rparr>)) =
       [''application/octet-stream'', ''application/javascript; charset=utf-8'']
   \<and> endswith ''/src/MAIN.JS'' ''.JS''
   \<and> wfile_headers (end_headers
           \<lparr>directory = ''/srv'', version_string = ''SimpleHTTP/0.6'',
            date_time_string = ''now'', status = Some 200,
            headers_buffer = [(''Content-type'', ''text/javascript'')],
            wfile_headers = [], wfile_body = [],
            command = ''GET'', path = ''/src/MAIN.JS''\<rparr>) =
       [(''Content-type'', ''text/javascript'')] @ cors_headers"
proof -
  have e1: "endswith ''/src/main.jsx'' ''.jsx''" by (simp add: endswith_def)
  have e2: "endswith ''/src/MAIN.JS'' ''.JS''" by (simp add: endswith_def)
  show ?thesis
    using e1 e2
      js_content_type_appended [of
        "\<lparr>directory = ''/srv'', version_string = ''SimpleHTTP/0.6'',
            date_time_string = ''now'', status = Some 200,
            headers_buffer = [(''Content-type'', ''application/octet-stream'')],
            wfile_headers = [], wfile_body = [],
            command = ''GET'', path = ''/src/main.jsx''\<rparr>"]
      js_content_type_appended [of
        "\<lparr>directory = ''/srv'', version_string = ''SimpleHTTP/0.6'',
            date_time_string = ''now'', status = Some 200,
            headers_buffer = [(''Content-type'', ''text/javascript'')],
            wfile_headers = [], wfile_body = [],
            command = ''GET'', path = ''/src/MAIN.JS''\<rparr>"]
    by (simp add: header_values_def lower_char_def cors_headers_def end_headers_unfold
        injected_content_type_def endswith_def)
qed

text \<open>
  C3 as stated (the Content-Type of the response is the JavaScript one, the content type
  being overridden) fails for a file that exists: the static-file handler has already
  sent its own guess, and the response has both lines.
\<close>

theorem js_content_type_not_overridden:
  "endswith ''/src/main.js'' ''.js''
   \<and> header_values ''Content-Type''
        (wfile_headers (send_reply
           (file_reply ''text/javascript'' ''10'' ''Wed, 04 Nov 2026 10:00:00 GMT'' ''export {};'')
           (new_handler ''SimpleHTTP/0.6 Python/3.12'' ''/srv''
              \<lparr>http_method = ''GET'', target = ''/src/main.js'',
               date = ''Wed, 04 Nov 2026 12:00:00 GMT''\<rparr>))) =
       [''text/javascript'', ''application/javascript; charset=utf-8'']
   \<and> header_values ''Content-Type''
        (wfile_headers (send_reply
           (file_reply ''text/javascript'' ''10'' ''Wed, 04 Nov 2026 10:00:00 GMT'' ''export {};'')
           (new_handler ''SimpleHTTP/0.6 Python/3.12'' ''/srv''
              \<lparr>http_method = ''GET'', target = ''/src/main.js'',
               date = ''Wed, 04 Nov 2026 12:00:00 GMT''\<rparr>))) \<noteq>
       [''application/javascript; charset=utf-8'']"
  by (simp add: send_reply_unfold file_reply_def new_handler_def header_values_def
      lower_char_def cors_headers_def injected_content_type_def endswith_def)

text \<open>
  C4, as the code has it. For a request target that ends in \<^verbatim>\<open>.json\<close> (an exact,
  case-sensitive comparison), \<open>end_headers\<close> sends the line
  \<^verbatim>\<open>Content-Type: application/json; charset=utf-8\<close> after the three CORS headers. The line is
  added, not substituted: every Content-Type line sent before it stays in the response,
  in front of it, so the injected value is the last Content-Type of the response.
\<close>

theorem json_content_type_appended:
  "endswith (path h) ''.json'' \<longrightarrow>
      wfile_headers (end_headers h) =
        wfile_headers h @ headers_buffer h @ cors_headers
          @ [(''Content-Type'', ''application/json; charset=utf-8'')]
      \<and> header_values ''Content-Type'' (wfile_headers (end_headers h)) =
        header_values ''Content-Type'' (wfile_headers h @ headers_buffer h)
          @ [''application/json; charset=utf-8'']"
proof (intro impI conjI)
  assume a: "endswith (path h) ''.json''"
  note inj = json_not_js [OF a]
  show "wfile_headers (end_headers h) =
        wfile_headers h @ headers_buffer h @ cors_headers
          @ [(''Content-Type'', ''application/json; charset=utf-8'')]"
    by (simp add: end_headers_unfold inj)
  show "header_values ''Content-Type'' (wfile_headers (end_headers h)) =
        header_values ''Content-Type'' (wfile_headers h @ headers_buffer h)
          @ [''application/json; charset=utf-8'']"
    using header_values_injected [of "path h"]
    by (simp add: end_headers_unfold inj header_values_append header_values_cors)
qed

text \<open>The theorem at \<^verbatim>\<open>/src/data/statutes.json\<close>, here the headers of an error page.\<close>

theorem json_content_type_appended_witness:
  "endswith ''/src/data/statutes.json'' ''.json''
   \<and> header_values ''Content-Type''
        (wfile_headers (end_headers
           \<lparr>directory = ''/srv'', version_string = ''SimpleHTTP/0.6'',
            date_time_string = ''now'', status = Some 404,
            headers_buffer = [(''Content-Type'', ''text/html;charset=utf-8'')],
            wfile_headers = [], wfile_body = [],
            command = ''GET'', path = ''/src/data/statutes.json''\<rparr>)) =
       [''text/html;charset=utf-8'', ''application/json; charset=utf-8'']"
proof -
  have e1: "endswith ''/src/data/statutes.json'' ''.json''" by (simp add: endswith_def)
  show ?thesis
    using e1
      json_content_type_appended [of
        "\<lparr>directory = ''/srv'', version_string = ''SimpleHTTP/0.6'',
            date_time_string = ''now'', status = Some 404,
            headers_buffer = [(''Content-Type'', ''text/html;charset=utf-8'')],
            wfile_headers = [], wfile_body = [],
            command = ''GET'', path = ''/src/data/statutes.json''\<rparr>"]
    by (simp add: header_values_def lower_char_def cors_headers_def end_headers_unfold
        injected_content_type_def endswith_def)
qed

text \<open>
  C4 as stated (the Content-Type of the response is the injected one, the content type
  being overridden) fails for a file that exists: the static-file handler has already
  sent its own guess, and the response has both lines.
\<close>

theorem json_content_type_not_overridden:
  "endswith ''/src/data/statutes.json'' ''.json''
   \<and> header_values ''Content-Type''
        (wfile_headers (send_reply
           (file_reply ''application/json'' ''2'' ''Wed, 04 Nov 2026 10:00:00 GMT'' ''{}'')
           (new_handler ''SimpleHTTP/0.6 Python/3.12'' ''/srv''
              \<lparr>http_method = ''GET'', target = ''/src/data/statutes.json'',
               date = ''Wed, 04 Nov 2026 12:00:00 GMT''\<rparr>))) =
       [''application/json'', ''application/json; charset=utf-8'']
   \<and> header_values ''Content-Type''
        (wfile_headers (send_reply
           (file_reply ''application/json'' ''2'' ''Wed, 04 Nov 2026 10:00:00 GMT'' ''{}'')
           (new_handler ''SimpleHTTP/0.6 Python/3.12'' ''/srv''
              \<lparr>http_method = ''GET'', target = ''/src/data/statutes.json'',
               date = ''Wed, 04 Nov 2026 12:00:00 GMT''\<rparr>))) \<noteq>
       [''application/json; charset=utf-8'']"
  by (simp add: send_reply_unfold file_reply_def new_handler_def header_values_def
      lower_char_def cors_headers_def injected_content_type_def endswith_def)

text \<open>
  C7. For a request target that ends in none of \<^verbatim>\<open>.js\<close>, \<^verbatim>\<open>.jsx\<close>, \<^verbatim>\<open>.json\<close>, the only
  header lines \<open>end_headers\<close> adds are the three CORS headers: it sends no Content-Type of
  its own, and the Content-Type lines of the response are those the static-file handler
  sent. Nothing else of the handler changes.
\<close>

theorem no_content_type_for_other_suffixes:
  assumes "\<not> endswith (path h) ''.js''"
    and "\<not> endswith (path h) ''.jsx''"
    and "\<not> endswith (path h) ''.json''"
  shows "end_headers h =
           h\<lparr>wfile_headers := wfile_headers h @ headers_buffer h @ cors_headers,
             headers_buffer := []\<rparr>
         \<and> header_values ''Content-Type'' (wfile_headers (end_headers h)) =
           header_values ''Content-Type'' (wfile_headers h @ headers_buffer h)"
proof -
  have inj: "injected_content_type (path h) = []"
    using assms by (simp add: injected_content_type_def)
  show ?thesis
    by (simp add: end_headers_unfold inj header_values_append header_values_cors)
qed

text \<open>The theorem at \<^verbatim>\<open>/index.html\<close>.\<close>

theorem no_content_type_for_other_suffixes_witness:
  "\<not> endswith ''/index.html'' ''.js'' \<and> \<not> endswith ''/index.html'' ''.jsx''
   \<and> \<not> endswith ''/index.html'' ''.json''
   \<and> wfile_headers (end_headers
        \<lparr>directory = ''/srv'', version_string = ''SimpleHTTP/0.6'',
         date_time_string = ''now'', status = Some 200,
         headers_buffer = [(''Content-type'', ''text/html'')],
         wfile_headers = [], wfile_body = [],
         command = ''GET'', path = ''/index.html''\<rparr>) =
       [(''Content-type'', ''text/html''),
        (''Access-Control-Allow-Origin'', ''*''),
        (''Access-Control-Allow-Methods'', ''GET, POST, OPTIONS''),
        (''Access-Control-Allow-Headers'', ''Content-Type'')]
   \<and> header_values ''Content-Type'' (wfile_headers (end_headers
        \<lparr>directory = ''/srv'', version_string = ''SimpleHTTP/0.6'',
         date_time_string = ''now'', status = Some 200,
         headers_buffer = [(''Content-type'', ''text/html'')],
         wfile_headers = [], wfile_body = [],
         command = ''GET'', path = ''/index.html''\<rparr>)) = [''text/html'']"
proof -
  have e: "\<not> endswith ''/index.html'' ''.js''" "\<not> endswith ''/index.html'' ''.jsx''"
    "\<not> endswith ''/index.html'' ''.json''"
    by (simp_all add: endswith_def)
  show ?thesis
    using e no_content_type_for_other_suffixes [of
        "\<lparr>directory = ''/srv'', version_string = ''SimpleHTTP/0.6'',
         date_time_string = ''now'', status = Some 200,
         headers_buffer = [(''Content-type'', ''text/html'')],
         wfile_headers = [], wfile_body = [],
         command = ''GET'', path = ''/index.html''\<rparr>"]
    by (simp add: cors_headers_def header_values_def lower_char_def)
qed

text \<open>
  C9. The suffix test reads \<open>path\<close>, which is the whole request target, query string
  included. The target \<^verbatim>\<open>/app.js?v=1\<close> gets no Content-Type from \<open>end_headers\<close> although the
  file path \<^verbatim>\<open>/app.js\<close> ends in \<^verbatim>\<open>.js\<close>; the target \<^verbatim>\<open>/data?f=.js\<close> gets the JavaScript
  Content-Type although the file path \<^verbatim>\<open>/data\<close> does not.
\<close>

theorem suffix_test_on_whole_target:
  "endswith ''/app.js'' ''.js''
   \<and> wfile_headers (end_headers (h\<lparr>path := ''/app.js?v=1''\<rparr>)) =
       wfile_headers h @ headers_buffer h @ cors_headers
   \<and> \<not> endswith ''/data'' ''.js''
   \<and> wfile_headers (end_headers (h\<lparr>path := ''/data?f=.js''\<rparr>)) =
       wfile_headers h @ headers_buffer h @ cors_headers
         @ [(''Content-Type'', ''application/javascript; charset=utf-8'')]
   \<and> path (new_handler ver dir \<lparr>http_method = m, target = t, date = d\<rparr>) = t"
  by (simp add: end_headers_unfold injected_content_type_def endswith_def new_handler_def)

text \<open>
  C10. A GET of an existing file whose target ends in \<^verbatim>\<open>.js\<close>, \<^verbatim>\<open>.jsx\<close> or \<^verbatim>\<open>.json\<close> is
  answered with status 200 and two Content-Type lines: the guess of the static-file
  handler first, the injected value after it.
\<close>

theorem two_content_type_lines:
  assumes "http_method req = ''GET''"
    and "static fs (new_handler ver dir req) = Inr (file_reply ctype len mtime bytes)"
    and "endswith (target req) ''.js'' \<or> endswith (target req) ''.jsx''
         \<or> endswith (target req) ''.json''"
  shows "response_status (MyHTTPRequestHandler static fs ver dir (Parsed req)) = Some 200
     \<and> header_values ''Content-Type''
          (response_headers (MyHTTPRequestHandler static fs ver dir (Parsed req))) =
        [ctype,
         if endswith (target req) ''.js'' \<or> endswith (target req) ''.jsx''
         then ''application/javascript; charset=utf-8''
         else ''application/json; charset=utf-8'']
     \<and> response_headers (MyHTTPRequestHandler static fs ver dir (Parsed req)) =
        [(''Server'', ver), (''Date'', date req),
         (''Content-type'', ctype), (''Content-Length'', len), (''Last-Modified'', mtime)]
        @ cors_headers @ injected_content_type (target req)"
proof -
  let ?h = "new_handler ver dir req"
  have run: "MyHTTPRequestHandler static fs ver dir (Parsed req) =
      Replied (send_reply (file_reply ctype len mtime bytes) ?h)"
    using assms(1,2)
    by (simp add: MyHTTPRequestHandler_def handle_one_request_def Let_def new_handler_def)
  have hs: "response_headers (MyHTTPRequestHandler static fs ver dir (Parsed req)) =
        [(''Server'', ver), (''Date'', date req),
         (''Content-type'', ctype), (''Content-Length'', len), (''Last-Modified'', mtime)]
        @ cors_headers @ injected_content_type (target req)"
    by (simp add: run send_reply_unfold file_reply_def new_handler_def)
  have st: "response_status (MyHTTPRequestHandler static fs ver dir (Parsed req)) = Some 200"
    by (simp add: run send_reply_unfold file_reply_def)
  have pre: "header_values ''Content-Type''
        [(''Server'', ver), (''Date'', date req),
         (''Content-type'', ctype), (''Content-Length'', len), (''Last-Modified'', mtime)]
      = [ctype]"
    by (simp add: header_values_def lower_char_def)
  have inj: "map snd (injected_content_type (target req)) =
        [if endswith (target req) ''.js'' \<or> endswith (target req) ''.jsx''
         then ''application/javascript; charset=utf-8''
         else ''application/json; charset=utf-8'']"
    using assms(3) by (auto simp: injected_content_type_def)
  have "header_values ''Content-Type''
          (response_headers (MyHTTPRequestHandler static fs ver dir (Parsed req))) =
        [ctype] @ map snd (injected_content_type (target req))"
    unfolding hs header_values_append pre header_values_cors header_values_injected by simp
  then show ?thesis using st hs inj by simp
qed

text \<open>The theorem for a GET of \<^verbatim>\<open>/src/main.js\<close>, a file the static-file handler finds.\<close>

theorem two_content_type_lines_witness:
  "http_method \<lparr>http_method = ''GET'', target = ''/src/main.js'', date = ''now''\<rparr> = ''GET''
   \<and> endswith ''/src/main.js'' ''.js''
   \<and> header_values ''Content-Type''
        (response_headers
          (MyHTTPRequestHandler
             (\<lambda>fs h. Inr (file_reply ''text/javascript'' ''10'' ''then'' ''export {};''))
             () ''SimpleHTTP/0.6'' ''/srv''
             (Parsed \<lparr>http_method = ''GET'', target = ''/src/main.js'', date = ''now''\<rparr>))) =
       [''text/javascript'', ''application/javascript; charset=utf-8'']"
proof -
  let ?req = "\<lparr>http_method = ''GET'', target = ''/src/main.js'', date = ''now''\<rparr>"
  let ?static = "\<lambda>(fs::unit) (h::handler).
      Inr (file_reply ''text/javascript'' ''10'' ''then'' ''export {};'') :: handler_error + reply"
  have m: "http_method ?req = ''GET''" by simp
  have s: "?static () (new_handler ''SimpleHTTP/0.6'' ''/srv'' ?req) =
      Inr (file_reply ''text/javascript'' ''10'' ''then'' ''export {};'')" by simp
  have e: "endswith ''/src/main.js'' ''.js''" by (simp add: endswith_def)
  have e': "endswith (target ?req) ''.js'' \<or> endswith (target ?req) ''.jsx''
         \<or> endswith (target ?req) ''.json''" using e by simp
  note t = two_content_type_lines [where static = "?static" and fs = "()"
      and ver = "''SimpleHTTP/0.6''" and dir = "''/srv''" and req = "?req"
      and ctype = "''text/javascript''" and len = "''10''" and mtime = "''then''"
      and bytes = "''export {};''", OF m s e', THEN conjunct2, THEN conjunct1]
  show ?thesis using e t by simp
qed

text \<open>
  C5. When port 8000 is already bound, the constructor of the server raises, nothing in
  the program catches the exception, and the process ends: one call to bind and none
  after it, the socket closed and never listening, a traceback on the console, exit
  status 1. The banner is not printed and no request is served.
\<close>

theorem bind_failure_is_fatal:
  assumes "port_in_use env PORT"
  shows "main static fs ver env evs = [Bind 8000, Close, Print (Traceback OSError), Exit 1]
     \<and> exit_status (main static fs ver env evs) = Some 1
     \<and> printed (main static fs ver env evs) = [Traceback OSError]
     \<and> \<not> listening (main static fs ver env evs) b
     \<and> bind_calls (main static fs ver env evs) = [8000]"
  using assms by (simp add: main_bind_failure PORT_def)

text \<open>The theorem for an environment where port 8000 is taken.\<close>

theorem bind_failure_is_fatal_witness:
  "port_in_use \<lparr>argv = [''serve.py''], getcwd = ''/srv'', port_in_use = (\<lambda>p. p = 8000)\<rparr> PORT
   \<and> main (\<lambda>fs h. Inr (file_reply ''text/html'' ''0'' ''then'' []))
        () ''SimpleHTTP/0.6''
        \<lparr>argv = [''serve.py''], getcwd = ''/srv'', port_in_use = (\<lambda>p. p = 8000)\<rparr>
        [Request (Parsed \<lparr>http_method = ''GET'', target = ''/index.html'', date = ''now''\<rparr>), Interrupt]
      = [Bind 8000, Close, Print (Traceback OSError), Exit 1]"
proof -
  have p: "port_in_use \<lparr>argv = [''serve.py''], getcwd = ''/srv'', port_in_use = (\<lambda>p. p = 8000)\<rparr> PORT"
    by (simp add: PORT_def)
  show ?thesis
    using p bind_failure_is_fatal [OF p, where static = "\<lambda>fs h. Inr (file_reply ''text/html'' ''0'' ''then'' [])"
        and fs = "()" and ver = "''SimpleHTTP/0.6''"
        and evs = "[Request (Parsed \<lparr>http_method = ''GET'', target = ''/index.html'', date = ''now''\<rparr>), Interrupt]"]
    by simp
qed

text \<open>
  C6. An interrupt while the server is serving ends the loop: the requests that arrived
  before it have been handled, those after it are not; the shutdown message is printed,
  the listening socket is closed on leaving the \<^verbatim>\<open>with\<close> block, and the process exits
  with status 0.
\<close>

theorem interrupt_stops_server:
  assumes "\<not> port_in_use env PORT" and "Interrupt \<in> set evs"
  shows "main static fs ver env evs =
       [Bind 8000, Listen, Print (Banner 8000)]
         @ map (\<lambda>r. Respond (MyHTTPRequestHandler static fs ver (getcwd env) r))
             (requests_before_interrupt evs)
         @ [Print ServerStopped, Close, Exit 0]
     \<and> exit_status (main static fs ver env evs) = Some 0
     \<and> printed (main static fs ver env evs) = [Banner 8000, ServerStopped]
     \<and> \<not> listening (main static fs ver env evs) b"
proof -
  have m: "main static fs ver env evs =
       [Bind 8000, Listen, Print (Banner 8000)]
         @ map (\<lambda>r. Respond (MyHTTPRequestHandler static fs ver (getcwd env) r))
             (requests_before_interrupt evs)
         @ [Print ServerStopped, Close, Exit 0]"
    using main_interrupted [OF assms] by (simp add: PORT_def)
  show ?thesis
    unfolding m
    by (simp add: exit_status_responses printed_append printed_responses
        listening_append listening_responses)
qed

text \<open>The theorem for a run with one request before the interrupt and one after.\<close>

theorem interrupt_stops_server_witness:
  "\<not> port_in_use \<lparr>argv = [''serve.py''], getcwd = ''/srv'', port_in_use = (\<lambda>p. False)\<rparr> PORT
   \<and> Interrupt \<in> set [Request (Parsed \<lparr>http_method = ''OPTIONS'', target = ''/x'', date = ''now''\<rparr>), Interrupt,
                        Request (Parsed \<lparr>http_method = ''OPTIONS'', target = ''/y'', date = ''later''\<rparr>)]
   \<and> exit_status (main (\<lambda>fs h. Inr (file_reply ''text/html'' ''0'' ''then'' []))
        () ''SimpleHTTP/0.6''
        \<lparr>argv = [''serve.py''], getcwd = ''/srv'', port_in_use = (\<lambda>p. False)\<rparr>
        [Request (Parsed \<lparr>http_method = ''OPTIONS'', target = ''/x'', date = ''now''\<rparr>), Interrupt,
         Request (Parsed \<lparr>http_method = ''OPTIONS'', target = ''/y'', date = ''later''\<rparr>)]) = Some 0
   \<and> printed (main (\<lambda>fs h. Inr (file_reply ''text/html'' ''0'' ''then'' []))
        () ''SimpleHTTP/0.6''
        \<lparr>argv = [''serve.py''], getcwd = ''/srv'', port_in_use = (\<lambda>p. False)\<rparr>
        [Request (Parsed \<lparr>http_method = ''OPTIONS'', target = ''/x'', date = ''now''\<rparr>), Interrupt,
         Request (Parsed \<lparr>http_method = ''OPTIONS'', target = ''/y'', date = ''later''\<rparr>)])
      = [Banner 8000, ServerStopped]"
proof -
  have p: "\<not> port_in_use \<lparr>argv = [''serve.py''], getcwd = ''/srv'', port_in_use = (\<lambda>p. False)\<rparr> PORT"
    by simp
  have i: "Interrupt \<in> set [Request (Parsed \<lparr>http_method = ''OPTIONS'', target = ''/x'', date = ''now''\<rparr>), Interrupt,
                        Request (Parsed \<lparr>http_method = ''OPTIONS'', target = ''/y'', date = ''later''\<rparr>)]"
    by simp
  show ?thesis
    using p i interrupt_stops_server [OF p i, where static = "\<lambda>fs h. Inr (file_reply ''text/html'' ''0'' ''then'' [])"
        and fs = "()" and ver = "''SimpleHTTP/0.6''"]
    by simp
qed

text \<open>
  C8. The program binds once, to port 8000, whatever the command line holds; every
  request it serves is served from the working directory read at startup, whatever the
  static-file handler and the requests are.
\<close>

theorem port_and_root_fixed:
  "bind_calls (main static fs ver env evs) = [8000]
   \<and> set (served_roots (main static fs ver env evs)) \<subseteq> {getcwd env}
   \<and> length (served_roots (main static fs ver env evs)) =
       (if port_in_use env PORT then 0 else length (requests_before_interrupt evs))
   \<and> main static fs ver (env\<lparr>argv := a\<rparr>) evs = main static fs ver env evs"
proof (cases "port_in_use env PORT")
  case True
  then show ?thesis
    by (simp add: main_bind_failure PORT_def)
next
  case False
  have arg: "main static fs ver (env\<lparr>argv := a\<rparr>) evs = main static fs ver env evs"
    by (simp add: main_def TCPServer_def)
  have "main static fs ver env evs =
       [Bind PORT, Listen, Print (Banner PORT)]
         @ map (\<lambda>r. Respond (MyHTTPRequestHandler static fs ver (getcwd env) r))
             (requests_before_interrupt evs)
         @ (if Interrupt \<in> set evs then [Print ServerStopped, Close, Exit 0] else [])"
    using main_interrupted [OF False, of evs static fs ver] main_running [OF False, of evs static fs ver]
    by (cases "Interrupt \<in> set evs") simp_all
  then show ?thesis
    using False arg
    by (auto simp: bind_calls_append bind_calls_responses served_roots_append
        served_roots_responses serving_root_MyHTTPRequestHandler PORT_def)
qed

end
